theory Spec2Isabelle
  imports Main "HOL-Library.Word"
begin

section \<open>JavaScript values used by the portal\<close>

text \<open>
  Strings are character lists; a character stands for one UTF-16 code unit below U+0100,
  so the strings of the model are the JavaScript strings made of such code units. The
  helpers below are the string methods the source calls, restricted to what it calls them
  with: \<open>includes\<close> with a literal, \<open>split\<close> with a one-character separator followed by
  \<open>[0]\<close>, \<open>trim\<close>, \<open>slice\<close> and \<open>toLowerCase\<close>. Of the code units below U+0100,
  JavaScript counts seven as white space: tab, line feed, vertical tab, form feed,
  carriage return, space and the no-break space U+00A0. What is proved below about white
  space is stated for ASCII strings.
\<close>

definition is_ascii :: "char \<Rightarrow> bool" where
  "is_ascii c = ((of_char c :: nat) < 128)"

definition is_space :: "char \<Rightarrow> bool" where
  "is_space c =
     (c \<in> set [CHR 0x09, CHR 0x0A, CHR 0x0B, CHR 0x0C, CHR 0x0D, CHR '' '', CHR 0xA0])"

definition js_trim :: "string \<Rightarrow> string" where
  "js_trim s = rev (dropWhile is_space (rev (dropWhile is_space s)))"

definition startsWith :: "string \<Rightarrow> string \<Rightarrow> bool" where
  "startsWith s p = (take (length p) s = p)"

fun js_includes :: "string \<Rightarrow> string \<Rightarrow> bool" where
  "js_includes [] p = (p = [])"
| "js_includes (c # cs) p = (startsWith (c # cs) p \<or> js_includes cs p)"

text \<open>\<open>s.split(sep)[0]\<close>: the text before the first separator, all of \<open>s\<close> without one.\<close>

definition split_head :: "char \<Rightarrow> string \<Rightarrow> string" where
  "split_head sep s = takeWhile (\<lambda>c. c \<noteq> sep) s"

text \<open>\<open>s.slice(0, n)\<close> and \<open>s.slice(-n)\<close>.\<close>

definition slice_to :: "nat \<Rightarrow> string \<Rightarrow> string" where
  "slice_to n s = take n s"

definition slice_last :: "nat \<Rightarrow> string \<Rightarrow> string" where
  "slice_last n s = drop (length s - n) s"

text \<open>
  Lower case below U+0100: the letters A to Z, and U+00C0 to U+00DE without the
  multiplication sign U+00D7, move up by 32; every other code unit stays.
\<close>

definition lower_char :: "char \<Rightarrow> char" where
  "lower_char c =
     (let n = (of_char c :: nat)
      in if (65 \<le> n \<and> n \<le> 90) \<or> (192 \<le> n \<and> n \<le> 214) \<or> (216 \<le> n \<and> n \<le> 222)
         then char_of (n + 32) else c)"

definition toLowerCase :: "string \<Rightarrow> string" where
  "toLowerCase s = map lower_char s"

text \<open>
  A string-or-null value is truthy when it is neither null (or undefined) nor the empty
  string: this is what \<open>if (address)\<close>, \<open>if (error.reason)\<close> and \<open>!x\<close> test.
\<close>

definition truthy :: "string option \<Rightarrow> bool" where
  "truthy v = (case v of None \<Rightarrow> False | Some s \<Rightarrow> s \<noteq> [])"

text \<open>
  Numbers are IEEE doubles. \<open>toNumber n\<close> is the double nearest to the non-negative
  integer \<open>n\<close>, ties going to the even significand, as \<open>Number(n)\<close> gives it for a BigInt
  and as an integer sum or product of doubles is rounded. Up to \<open>2^53\<close> every integer is
  its own double; above, \<open>n\<close> keeps its 53 leading bits. The result is a finite double
  while it is below \<open>2^1024\<close>, which holds for every 256-bit integer.
\<close>

fun bit_length :: "nat \<Rightarrow> nat" where
  "bit_length n = (if n = 0 then 0 else Suc (bit_length (n div 2)))"

declare bit_length.simps [simp del]

definition toNumber :: "nat \<Rightarrow> nat" where
  "toNumber n =
     (if n \<le> 2 ^ 53 then n
      else
        (let e = bit_length n - 53;
             q = n div 2 ^ e;
             r = n mod 2 ^ e;
             h = 2 ^ (e - 1)
         in (if h < r \<or> (r = h \<and> odd q) then Suc q else q) * 2 ^ e))"

text \<open>
  A number held in a state cell: NaN, an integer-valued double, negative zero, or an
  infinity.
\<close>

datatype number = NaN | Num int | NegZero | PosInfinity | NegInfinity

definition hex_digit_val :: "char \<Rightarrow> nat option" where
  "hex_digit_val c =
     (let n = (of_char c :: nat) in
      if 48 \<le> n \<and> n \<le> 57 then Some (n - 48)
      else if 97 \<le> n \<and> n \<le> 102 then Some (n - 87)
      else if 65 \<le> n \<and> n \<le> 70 then Some (n - 55)
      else None)"

fun hex_value :: "nat \<Rightarrow> string \<Rightarrow> nat" where
  "hex_value acc [] = acc"
| "hex_value acc (c # cs) =
     (case hex_digit_val c of None \<Rightarrow> acc | Some d \<Rightarrow> hex_value (16 * acc + d) cs)"

text \<open>
  \<open>Number.parseInt(s, 16)\<close>: leading white space is skipped, one sign is read, a
  \<open>0x\<close> or \<open>0X\<close> prefix is dropped, and the longest run of hexadecimal digits is the
  value, rounded to a double; with no digit the result is NaN, and a zero after a minus
  sign is negative zero.
\<close>

definition parseInt16 :: "string \<Rightarrow> number" where
  "parseInt16 s =
     (let s1 = dropWhile is_space s;
          sgn = (if startsWith s1 ''-'' then - 1 else (1 :: int));
          s2 = (if startsWith s1 ''-'' \<or> startsWith s1 ''+'' then drop 1 s1 else s1);
          s3 = (if startsWith s2 ''0x'' \<or> startsWith s2 ''0X'' then drop 2 s2 else s2);
          z = takeWhile (\<lambda>c. hex_digit_val c \<noteq> None) s3;
          mathInt = hex_value 0 z
      in if z = [] then NaN
         else if mathInt = 0 then (if sgn < 0 then NegZero else Num 0)
         else if 2 ^ 1024 \<le> toNumber mathInt then (if sgn < 0 then NegInfinity else PosInfinity)
         else Num (sgn * int (toNumber mathInt)))"

text \<open>
  The payloads of a chain-changed event for which the parsed number is certainly the
  one the code holds: no digits at all, a zero, or an integer of magnitude at most
  \<open>2^53\<close>.
\<close>

fun exact_number :: "number \<Rightarrow> bool" where
  "exact_number NaN = True"
| "exact_number (Num v) = (\<bar>v\<bar> \<le> 2 ^ 53)"
| "exact_number NegZero = True"
| "exact_number PosInfinity = False"
| "exact_number NegInfinity = False"

definition hex_digit :: "nat \<Rightarrow> char" where
  "hex_digit d = ''0123456789abcdef'' ! d"

fun hex_digits :: "nat \<Rightarrow> string" where
  "hex_digits n = (if n < 16 then [hex_digit n] else hex_digits (n div 16) @ [hex_digit (n mod 16)])"

declare hex_digits.simps [simp del]

text \<open>\<open>n.toString(16)\<close> for an integer \<open>n\<close>.\<close>

definition toString16 :: "int \<Rightarrow> string" where
  "toString16 n = (if n < 0 then ''-'' @ hex_digits (nat (- n)) else hex_digits (nat n))"

section \<open>Chain session (Web3Provider)\<close>

text \<open>
  The failure value of a rejected promise: the fields of the error object that the source
  reads (\<open>code\<close>, \<open>reason\<close>, \<open>message\<close>), each possibly missing.
\<close>

record js_error =
  code :: "int option"
  reason :: "string option"
  message :: "string option"

datatype variant = Default | Destructive

datatype toast = Toast string string variant

datatype provider_handle = BrowserProvider

datatype signer_handle = Signer nat

datatype contract_handle = Contract string "string list" signer_handle

datatype network = Network int string

datatype native_currency = NativeCurrency string string nat

datatype chain_params = ChainParams string string native_currency "string list" "string list"

datatype rpc_request =
    RequestAccounts
  | SwitchEthereumChain string
  | AddEthereumChain chain_params

text \<open>
  The injected wallet (\<open>window.ethereum\<close> and the ethers provider built on it), as the
  answers it gives: \<open>request\<close> resolves (\<open>None\<close>) or rejects with an error, the other
  calls return a value or reject.
\<close>

record wallet =
  request :: "rpc_request \<Rightarrow> js_error option"
  getNetwork :: "js_error + network"
  listAccounts :: "js_error + signer_handle list"
  getSigner :: "js_error + signer_handle"
  getAddress :: "signer_handle \<Rightarrow> js_error + string"

definition contractABI :: "string list" where
  "contractABI =
    [''function mintCertificate(address recipient, string memory studentName, string memory degree, string memory university, string memory certificateURI) public'',
     ''function verifyCertificate(uint256 tokenId) public view returns (string memory studentName, string memory degree, string memory university, string memory ipfsHash)'',
     ''function balanceOf(address owner) external view returns (uint256 balance)'',
     ''function tokenOfOwnerByIndex(address owner, uint256 index) external view returns (uint256 tokenId)'',
     ''function ownerOf(uint256 tokenId) external view returns (address owner)'',
     ''function getCertificateDetails(uint256 tokenId) public view returns (string memory studentName, string memory degree, string memory university, string memory ipfsHash)'',
     ''function getIssuedCertificates(address issuer) public view returns (uint256[] memory)'']"

definition contractAddress :: string where
  "contractAddress = ''0xAa35AA4dDfbB5A817F480378b45C09B7D90F2B5E''"

definition REQUIRED_CHAIN_ID :: int where
  "REQUIRED_CHAIN_ID = 656476"

text \<open>
  The component state of \<open>Web3Provider\<close> (its eight \<open>useState\<close> cells), followed by what
  it does to the outside: the notifications shown, the requests sent to the wallet, and
  the number of calls of \<open>window.location.reload()\<close>. Console output is not modelled.
\<close>

record session =
  provider :: "provider_handle option"
  signer :: "signer_handle option"
  contract :: "contract_handle option"
  address :: "string option"
  isConnecting :: bool
  chainId :: "number option"
  networkName :: "string option"
  isCorrectNetwork :: bool
  toasts :: "toast list"
  requests :: "rpc_request list"
  reloads :: nat

definition initial_session :: session where
  "initial_session =
     \<lparr>provider = None, signer = None, contract = None, address = None,
      isConnecting = False, chainId = None, networkName = None, isCorrectNetwork = False,
      toasts = [], requests = [], reloads = 0\<rparr>"

definition toast :: "toast \<Rightarrow> session \<Rightarrow> session" where
  "toast t s = s\<lparr>toasts := toasts s @ [t]\<rparr>"

text \<open>\<open>checkConnection\<close>, run once when the provider is first seen; any rejection ends it.\<close>

definition checkConnection :: "wallet \<Rightarrow> session \<Rightarrow> session" where
  "checkConnection w s =
     (case getNetwork w of
        Inl e \<Rightarrow> s
      | Inr (Network cid nm) \<Rightarrow>
          (let s1 = s\<lparr>chainId := Some (Num cid), networkName := Some nm,
                      isCorrectNetwork := (cid = REQUIRED_CHAIN_ID)\<rparr>
           in case listAccounts w of
                Inl e \<Rightarrow> s1
              | Inr accounts \<Rightarrow>
                  if length accounts > 0 then
                    (case getSigner w of
                       Inl e \<Rightarrow> s1
                     | Inr sg \<Rightarrow>
                         (case getAddress w sg of
                            Inl e \<Rightarrow> s1
                          | Inr a \<Rightarrow>
                              (let s2 = s1\<lparr>signer := Some sg, address := Some a\<rparr>
                               in if cid = REQUIRED_CHAIN_ID
                                  then s2\<lparr>contract := Some (Contract contractAddress contractABI sg)\<rparr>
                                  else s2)))
                  else s1))"

text \<open>The mount effect: with no injected wallet nothing is set.\<close>

definition initialize :: "wallet option \<Rightarrow> session \<Rightarrow> session" where
  "initialize ethereum s =
     (case ethereum of
        None \<Rightarrow> s
      | Some w \<Rightarrow> checkConnection w (s\<lparr>provider := Some BrowserProvider\<rparr>))"

text \<open>
  The \<open>catch\<close> and \<open>finally\<close> of \<open>connectWallet\<close>: a notification, the error thrown again,
  \<open>isConnecting\<close> reset.
\<close>

definition connect_failed :: "js_error \<Rightarrow> session \<Rightarrow> (js_error + string option) \<times> session" where
  "connect_failed e s =
     (Inl e,
      (toast (Toast ''Connection failed'' ''There was an error connecting your wallet.'' Destructive) s)
        \<lparr>isConnecting := False\<rparr>)"

text \<open>
  \<open>connectWallet\<close> returns \<open>Inl e\<close> when it throws \<open>e\<close>, \<open>Inr None\<close> when it returns
  without a value, and \<open>Inr (Some a)\<close> when it returns the address \<open>a\<close>. The function
  is created anew in every render and reads the \<open>provider\<close> cell of that render: \<open>seen\<close>
  is the value it reads.
\<close>

definition connectWalletSeen ::
  "provider_handle option \<Rightarrow> wallet \<Rightarrow> session \<Rightarrow> (js_error + string option) \<times> session" where
  "connectWalletSeen seen w s =
     (if seen = None then
        (Inr None,
         toast (Toast ''No provider found'' ''Please install MetaMask or another Web3 wallet.'' Destructive) s)
      else
        (let s0 = s\<lparr>isConnecting := True, requests := requests s @ [RequestAccounts]\<rparr>
         in case request w RequestAccounts of
              Some e \<Rightarrow> connect_failed e s0
            | None \<Rightarrow>
                (case getNetwork w of
                   Inl e \<Rightarrow> connect_failed e s0
                 | Inr (Network cid nm) \<Rightarrow>
                     (let s1 = s0\<lparr>chainId := Some (Num cid), networkName := Some nm,
                                  isCorrectNetwork := (cid = REQUIRED_CHAIN_ID)\<rparr>
                      in case getSigner w of
                           Inl e \<Rightarrow> connect_failed e s1
                         | Inr sg \<Rightarrow>
                             (case getAddress w sg of
                                Inl e \<Rightarrow> connect_failed e s1
                              | Inr a \<Rightarrow>
                                  (let s2 = s1\<lparr>signer := Some sg, address := Some a\<rparr>
                                   in if cid = REQUIRED_CHAIN_ID then
                                        (Inr (Some a),
                                         (toast (Toast ''Wallet connected!''
                                                   (''Connected to '' @ slice_to 6 a @ ''...'' @ slice_last 4 a)
                                                   Default)
                                            (s2\<lparr>contract := Some (Contract contractAddress contractABI sg)\<rparr>))
                                           \<lparr>isConnecting := False\<rparr>)
                                      else
                                        (Inr (Some a),
                                         (toast (Toast ''Wrong network''
                                                   ''Please switch to the required network.'' Destructive) s2)
                                           \<lparr>isConnecting := False\<rparr>)))))))"

text \<open>Called from a component, \<open>connectWallet\<close> is the one of the latest render.\<close>

definition connectWallet :: "wallet \<Rightarrow> session \<Rightarrow> (js_error + string option) \<times> session" where
  "connectWallet w s = connectWalletSeen (provider s) w s"

text \<open>
  The provider's own \<open>disconnectWallet\<close>, which \<open>AuthProvider\<close> imports under the name
  \<open>disconnectWeb3Wallet\<close>. It returns \<open>true\<close>; nothing in it can throw.
\<close>

definition disconnectWeb3Wallet :: "session \<Rightarrow> bool \<times> session" where
  "disconnectWeb3Wallet s =
     (True,
      toast (Toast ''Wallet disconnected''
               ''Your wallet has been disconnected from the application.'' Default)
        (s\<lparr>signer := None, address := None, contract := None\<rparr>))"

text \<open>
  The handler calls \<open>connectWallet()\<close> without awaiting it, so a rejection is dropped.
  It holds the \<open>connectWallet\<close> of the render in which the mount effect last ran (the
  effect depends on \<open>toast\<close> only, which comes from a hook outside these sources), so the
  \<open>provider\<close> value that call reads is the argument \<open>seen\<close>: null for the first render,
  the current handle for a later one.
\<close>

definition handleAccountsChanged ::
  "provider_handle option \<Rightarrow> wallet \<Rightarrow> string list \<Rightarrow> session \<Rightarrow> session" where
  "handleAccountsChanged seen w accounts s =
     (if length accounts = 0 then
        toast (Toast ''Wallet disconnected'' ''Your wallet has been disconnected.'' Destructive)
          (s\<lparr>signer := None, address := None, contract := None\<rparr>)
      else snd (connectWalletSeen seen w s))"

definition handleChainChanged :: "string \<Rightarrow> session \<Rightarrow> session" where
  "handleChainChanged chainIdHex s =
     (let newChainId = parseInt16 chainIdHex
      in s\<lparr>chainId := Some newChainId,
            isCorrectNetwork := (newChainId = Num REQUIRED_CHAIN_ID),
            reloads := Suc (reloads s)\<rparr>)"

text \<open>
  A completed page reload: every state cell is back at its \<open>useState\<close> default. The mount
  effect (\<open>initialize\<close>) runs after it.
\<close>

definition reload :: "session \<Rightarrow> session" where
  "reload s = initial_session"

definition requiredChainParams :: chain_params where
  "requiredChainParams =
     ChainParams (''0x'' @ toString16 REQUIRED_CHAIN_ID) ''Open Campus Codex''
       (NativeCurrency ''OCC Token'' ''OCC'' 18)
       [''https://rpc.open-campus-codex.gelato.digital/'']
       [''https://explorer.open-campus-codex.gelato.digital/'']"

definition switchNetwork :: "wallet option \<Rightarrow> session \<Rightarrow> session" where
  "switchNetwork ethereum s =
     (case ethereum of
        None \<Rightarrow>
          toast (Toast ''No provider found'' ''Please install MetaMask or another Web3 wallet.'' Destructive) s
      | Some w \<Rightarrow>
          (let switch = SwitchEthereumChain (''0x'' @ toString16 REQUIRED_CHAIN_ID);
               s1 = s\<lparr>requests := requests s @ [switch]\<rparr>
           in case request w switch of
                None \<Rightarrow> s1
              | Some switchError \<Rightarrow>
                  if code switchError = Some 4902 then
                    (let add = AddEthereumChain requiredChainParams;
                         s2 = s1\<lparr>requests := requests s1 @ [add]\<rparr>
                     in case request w add of
                          None \<Rightarrow> s2
                        | Some addError \<Rightarrow>
                            toast (Toast ''Network switch failed''
                                     ''Could not add the required network to your wallet.'' Destructive) s2)
                  else
                    toast (Toast ''Network switch failed''
                             ''Could not switch to the required network.'' Destructive) s1))"

text \<open>
  The transitions of the session as events, and a run of events from a state. Each
  operation is taken as one step; its outcome is decided by the wallet's answers.
\<close>

datatype event =
    Initialize "wallet option"
  | Connect wallet
  | Disconnect
  | AccountsChanged "provider_handle option" wallet "string list"
  | ChainChanged string
  | Reload

fun step :: "event \<Rightarrow> session \<Rightarrow> session" where
  "step (Initialize ethereum) s = initialize ethereum s"
| "step (Connect w) s = snd (connectWallet w s)"
| "step Disconnect s = snd (disconnectWeb3Wallet s)"
| "step (AccountsChanged seen w accounts) s = handleAccountsChanged seen w accounts s"
| "step (ChainChanged chainIdHex) s = handleChainChanged chainIdHex s"
| "step Reload s = reload s"

definition run :: "event list \<Rightarrow> session \<Rightarrow> session" where
  "run es s = fold step es s"

text \<open>The network gating property of a state.\<close>

definition gating :: "session \<Rightarrow> bool" where
  "gating s =
     (((contract s \<noteq> None) = (chainId s = Some (Num REQUIRED_CHAIN_ID) \<and> address s \<noteq> None)) \<and>
      (contract s \<noteq> None \<longrightarrow> signer s \<noteq> None \<and> chainId s = Some (Num REQUIRED_CHAIN_ID)))"

text \<open>
  An event is steady for chain \<open>c\<close> when every network answer in it names chain \<open>c\<close>; a
  chain-changed event is not steady for any chain.
\<close>

definition reports :: "int \<Rightarrow> wallet \<Rightarrow> bool" where
  "reports c w = (case getNetwork w of Inl e \<Rightarrow> True | Inr (Network cid nm) \<Rightarrow> cid = c)"

fun steady :: "int \<Rightarrow> event \<Rightarrow> bool" where
  "steady c (Initialize ethereum) = (case ethereum of None \<Rightarrow> True | Some w \<Rightarrow> reports c w)"
| "steady c (Connect w) = reports c w"
| "steady c Disconnect = True"
| "steady c (AccountsChanged seen w accounts) = reports c w"
| "steady c (ChainChanged chainIdHex) = False"
| "steady c Reload = True"

text \<open>A wallet on the required chain with one authorised account.\<close>

definition good_wallet :: wallet where
  "good_wallet =
     \<lparr>request = (\<lambda>r. None),
      getNetwork = Inr (Network REQUIRED_CHAIN_ID ''open-campus-codex''),
      listAccounts = Inr [Signer 0],
      getSigner = Inr (Signer 0),
      getAddress = (\<lambda>sg. Inr ''0xABCDEF0123456789abcdef0123456789ABCD1234'')\<rparr>"

text \<open>The invariant kept by steady events: what is known about a session on chain \<open>c\<close>.\<close>

definition session_inv :: "int \<Rightarrow> session \<Rightarrow> bool" where
  "session_inv c s =
     ((chainId s = None \<or> chainId s = Some (Num c)) \<and>
      (case address s of
         None \<Rightarrow> signer s = None \<and> contract s = None
       | Some a \<Rightarrow> signer s \<noteq> None \<and> chainId s = Some (Num c) \<and>
                  ((contract s \<noteq> None) = (c = REQUIRED_CHAIN_ID))))"

section \<open>Identity synchronisation (AuthProvider)\<close>

datatype account_type = Student | Institution

record user =
  user_id :: string
  name :: string
  email :: "string option"
  accountType :: account_type
  walletAddress :: "string option"

text \<open>
  The state of \<open>AuthProvider\<close>: its two \<open>useState\<close> cells, the browser's local storage
  (the record kept under a key stands for its JSON text, which \<open>JSON.parse\<close> reads back
  field by field) and the notifications shown.
\<close>

record auth =
  user :: "user option"
  isLoading :: bool
  localStorage :: "string \<rightharpoonup> user"
  auth_toasts :: "toast list"

definition eduverify_user :: string where
  "eduverify_user = ''eduverify_user''"

definition persist :: "user \<Rightarrow> auth \<Rightarrow> auth" where
  "persist u a = a\<lparr>localStorage := (localStorage a)(eduverify_user \<mapsto> u)\<rparr>"

definition auth_toast :: "toast \<Rightarrow> auth \<Rightarrow> auth" where
  "auth_toast t a = a\<lparr>auth_toasts := auth_toasts a @ [t]\<rparr>"

definition checkSession :: "auth \<Rightarrow> auth" where
  "checkSession a =
     (case localStorage a eduverify_user of
        None \<Rightarrow> a
      | Some parsedUser \<Rightarrow> a\<lparr>user := Some parsedUser\<rparr>)\<lparr>isLoading := False\<rparr>"

definition no_user_error :: js_error where
  "no_user_error = \<lparr>code = None, reason = None, message = Some ''No user logged in''\<rparr>"

definition linkWallet :: "string \<Rightarrow> auth \<Rightarrow> (js_error + unit) \<times> auth" where
  "linkWallet wa a =
     (case user a of
        None \<Rightarrow>
          (Inl no_user_error,
           auth_toast (Toast ''Wallet linking failed''
                         ''Could not link your wallet to your account.'' Destructive) a)
      | Some u \<Rightarrow>
          (let updatedUser = u\<lparr>walletAddress := Some wa\<rparr>
           in (Inr (),
               auth_toast (Toast ''Wallet linked'' ''Your wallet has been linked to your account.'' Default)
                 (persist updatedUser (a\<lparr>user := Some updatedUser\<rparr>)))))"

text \<open>
  The effect that follows the session's address. It reads the stored record, not the
  \<open>user\<close> cell; a rejection of \<open>linkWallet\<close> is not caught here and is dropped.
\<close>

definition handleWalletConnection :: "session \<Rightarrow> auth \<Rightarrow> auth" where
  "handleWalletConnection s a =
     (if truthy (address s) \<and> \<not> isLoading a then
        (case address s of
           None \<Rightarrow> a
         | Some addr \<Rightarrow>
             (case localStorage a eduverify_user of
                Some parsedUser \<Rightarrow>
                  if \<not> truthy (walletAddress parsedUser) \<or> walletAddress parsedUser \<noteq> Some addr
                  then snd (linkWallet addr a)
                  else a
              | None \<Rightarrow>
                  (let newUser = \<lparr>user_id = ''wallet-'' @ addr,
                                  name = ''User '' @ slice_to 6 addr,
                                  email = None,
                                  accountType = Student,
                                  walletAddress = Some addr\<rparr>
                   in auth_toast
                        (Toast ''Wallet account created''
                           ''A new account has been created with your wallet. You can update your account type in settings.''
                           Default)
                        (persist newUser (a\<lparr>user := Some newUser\<rparr>)))))
      else a)"

text \<open>
  \<open>login\<close> and \<open>register\<close>. The identifier drawn from \<open>Math.random()\<close> is the argument
  \<open>rid\<close>; the password is not read. Nothing inside the \<open>try\<close> can throw.
\<close>

definition login :: "string \<Rightarrow> session \<Rightarrow> string \<Rightarrow> string \<Rightarrow> auth \<Rightarrow> auth" where
  "login rid s mail password a =
     (let isInstitution = js_includes mail ''institution'';
          u = \<lparr>user_id = rid,
               name = (if isInstitution then split_head CHR ''@'' mail @ '' University''
                       else split_head CHR ''@'' mail),
               email = Some mail,
               accountType = (if isInstitution then Institution else Student),
               walletAddress = None\<rparr>;
          u' = (if truthy (address s) then u\<lparr>walletAddress := address s\<rparr> else u)
      in (auth_toast (Toast ''Login successful'' (''Welcome back, '' @ name u' @ ''!'') Default)
            (persist u' (a\<lparr>isLoading := True, user := Some u'\<rparr>)))
           \<lparr>isLoading := False\<rparr>)"

record registration =
  reg_name :: string
  reg_email :: "string option"
  reg_accountType :: account_type

definition register :: "string \<Rightarrow> session \<Rightarrow> registration \<Rightarrow> auth \<Rightarrow> auth" where
  "register rid s userData a =
     (let u = \<lparr>user_id = rid,
               name = reg_name userData,
               email = reg_email userData,
               accountType = reg_accountType userData,
               walletAddress = None\<rparr>;
          u' = (if truthy (address s) then u\<lparr>walletAddress := address s\<rparr> else u)
      in (auth_toast (Toast ''Registration successful'' (''Welcome, '' @ name u' @ ''!'') Default)
            (persist u' (a\<lparr>isLoading := True, user := Some u'\<rparr>)))
           \<lparr>isLoading := False\<rparr>)"

text \<open>The account-level \<open>disconnectWallet\<close> (unlink), acting on both providers.\<close>

definition disconnectWallet :: "session \<Rightarrow> auth \<Rightarrow> session \<times> auth" where
  "disconnectWallet s a =
     (case user a of
        None \<Rightarrow> (s, a)
      | Some u \<Rightarrow>
          (let s' = snd (disconnectWeb3Wallet s);
               updatedUser = u\<lparr>walletAddress := None\<rparr>
           in (s',
               auth_toast (Toast ''Wallet disconnected''
                             ''Your wallet has been disconnected from your account.'' Default)
                 (persist updatedUser (a\<lparr>user := Some updatedUser\<rparr>)))))"

definition updateAccountType :: "account_type \<Rightarrow> auth \<Rightarrow> (js_error + unit) \<times> auth" where
  "updateAccountType t a =
     (case user a of
        None \<Rightarrow>
          (Inl no_user_error,
           auth_toast (Toast ''Update failed'' ''Could not update your account type.'' Destructive) a)
      | Some u \<Rightarrow>
          (let updatedUser = u\<lparr>accountType := t\<rparr>
           in (Inr (),
               auth_toast (Toast ''Account type updated''
                             (''Your account type has been updated to '' @
                                (case t of Student \<Rightarrow> ''student'' | Institution \<Rightarrow> ''institution'') @ ''.'')
                             Default)
                 (persist updatedUser (a\<lparr>user := Some updatedUser\<rparr>)))))"

definition logout :: "session \<Rightarrow> auth \<Rightarrow> session \<times> auth" where
  "logout s a =
     (let s' = (case user a of
                  None \<Rightarrow> s
                | Some u \<Rightarrow> if truthy (walletAddress u) then snd (disconnectWeb3Wallet s) else s)
      in (s',
          auth_toast (Toast ''Logged out'' ''You have been logged out successfully.'' Default)
            (a\<lparr>user := None, localStorage := (localStorage a)(eduverify_user := None)\<rparr>)))"

section \<open>Credential pages and contract-call errors\<close>

text \<open>
  The deployed contract as seen through the bound handle: each call returns a value or
  rejects. Token ids and balances are \<open>uint256\<close> values; an index is passed as a number.
\<close>

type_synonym uint256 = "256 word"

type_synonym details = "string \<times> string \<times> string \<times> string"

record contract_api =
  getIssuedCertificates :: "string \<Rightarrow> js_error + uint256 list"
  verifyCertificate :: "uint256 \<Rightarrow> js_error + details"
  ownerOf :: "uint256 \<Rightarrow> js_error + string"
  balanceOf :: "string \<Rightarrow> js_error + uint256"
  tokenOfOwnerByIndex :: "string \<Rightarrow> nat \<Rightarrow> js_error + uint256"

text \<open>The \<open>id\<close> of a credential is the number \<open>Number(tokenId)\<close>.\<close>

record credential =
  cred_id :: nat
  studentName :: string
  degree :: string
  university :: string
  ipfsHash :: string
  recipientAddress :: "string option"

record page =
  credentials :: "credential list"
  loading :: bool
  fetch_error :: "string option"
  reputationScore :: nat

text \<open>
  The loop of \<open>fetchIssuedCredentials\<close> over the issued token ids, \<open>acc\<close> being
  \<open>credentialsList\<close>: the \<open>catch\<close> inside the loop body drops the item and goes on.
\<close>

fun issued_loop :: "contract_api \<Rightarrow> uint256 list \<Rightarrow> credential list \<Rightarrow> credential list" where
  "issued_loop c [] acc = acc"
| "issued_loop c (tokenId # rest) acc =
     (case verifyCertificate c tokenId of
        Inl err \<Rightarrow> issued_loop c rest acc
      | Inr (d0, d1, d2, d3) \<Rightarrow>
          (case ownerOf c tokenId of
             Inl err \<Rightarrow> issued_loop c rest acc
           | Inr owner \<Rightarrow>
               issued_loop c rest
                 (acc @ [\<lparr>cred_id = toNumber (unat tokenId), studentName = d0, degree = d1,
                          university = d2, ipfsHash = d3, recipientAddress = Some owner\<rparr>])))"

definition fetchIssuedCredentials :: "contract_api \<Rightarrow> session \<Rightarrow> auth \<Rightarrow> page \<Rightarrow> page" where
  "fetchIssuedCredentials c s a p =
     (case address s of
        None \<Rightarrow> p
      | Some addr \<Rightarrow>
          if addr = [] then p
          else if \<not> isCorrectNetwork s then p
          else if contract s = None then p
          else if map_option accountType (user a) \<noteq> Some Institution then p
          else
            (let p0 = p\<lparr>loading := True, fetch_error := None\<rparr>
             in case getIssuedCertificates c addr of
                  Inl err \<Rightarrow>
                    p0\<lparr>fetch_error := Some ''Failed to fetch issued credential data. Please try again.'',
                       loading := False\<rparr>
                | Inr issuedTokenIds \<Rightarrow>
                    if length issuedTokenIds = 0 then p0\<lparr>credentials := [], loading := False\<rparr>
                    else p0\<lparr>credentials := issued_loop c issuedTokenIds [], loading := False\<rparr>))"

text \<open>
  The loop of \<open>fetchCredentials\<close> over the indices \<open>i < count\<close>. The counter is a
  number, so \<open>i++\<close> is a rounded sum: it stops growing at \<open>2^53\<close>, and for a larger
  \<open>count\<close> the loop does not end. The result is \<open>None\<close> when it does not.
\<close>

partial_function (option) owned_loop ::
  "contract_api \<Rightarrow> string \<Rightarrow> nat \<Rightarrow> nat \<Rightarrow> credential list \<Rightarrow> credential list option" where
  "owned_loop c addr i count acc =
     (if i < count then
        (case tokenOfOwnerByIndex c addr i of
           Inl err \<Rightarrow> owned_loop c addr (toNumber (Suc i)) count acc
         | Inr tokenId \<Rightarrow>
             (case verifyCertificate c tokenId of
                Inl err \<Rightarrow> owned_loop c addr (toNumber (Suc i)) count acc
              | Inr (d0, d1, d2, d3) \<Rightarrow>
                  owned_loop c addr (toNumber (Suc i)) count
                    (acc @ [\<lparr>cred_id = toNumber (unat tokenId), studentName = d0, degree = d1,
                             university = d2, ipfsHash = d3, recipientAddress = None\<rparr>])))
      else Some acc)"

text \<open>The two bonus sums and the total are sums of numbers, rounded at each step.\<close>

definition universityBonus :: "credential list \<Rightarrow> nat" where
  "universityBonus cs =
     fold (\<lambda>cred acc. if js_includes (toLowerCase (university cred)) ''university''
                       then toNumber (acc + 5) else acc) cs 0"

definition degreeBonus :: "credential list \<Rightarrow> nat" where
  "degreeBonus cs =
     fold (\<lambda>cred acc.
             if js_includes (toLowerCase (degree cred)) ''master'' \<or>
                js_includes (toLowerCase (degree cred)) ''phd'' then toNumber (acc + 10)
             else if js_includes (toLowerCase (degree cred)) ''bachelor'' then toNumber (acc + 5)
             else acc) cs 0"

definition fetchCredentials :: "contract_api \<Rightarrow> session \<Rightarrow> page \<Rightarrow> page option" where
  "fetchCredentials c s p =
     (case address s of
        None \<Rightarrow> Some p
      | Some addr \<Rightarrow>
          if addr = [] then Some p
          else if \<not> isCorrectNetwork s then Some p
          else if contract s = None then Some p
          else
            (let p0 = p\<lparr>loading := True, fetch_error := None\<rparr>
             in case balanceOf c addr of
                  Inl err \<Rightarrow>
                    Some (p0\<lparr>fetch_error := Some ''Failed to fetch credential data. Please try again.'',
                             loading := False\<rparr>)
                | Inr balance \<Rightarrow>
                    (let count = toNumber (unat balance)
                     in if count = 0
                        then Some (p0\<lparr>credentials := [], reputationScore := 0, loading := False\<rparr>)
                        else
                          (case owned_loop c addr 0 count [] of
                             None \<Rightarrow> None
                           | Some credentialsList \<Rightarrow>
                               Some (p0\<lparr>credentials := credentialsList,
                                        reputationScore :=
                                          toNumber (toNumber (toNumber (count * 10) +
                                                              universityBonus credentialsList) +
                                                    degreeBonus credentialsList),
                                        loading := False\<rparr>)))))"

text \<open>What one item of a batch yields on its own: its entry, or nothing when a lookup fails.\<close>

definition issued_item :: "contract_api \<Rightarrow> uint256 \<Rightarrow> credential option" where
  "issued_item c tokenId =
     (case (verifyCertificate c tokenId, ownerOf c tokenId) of
        (Inr (d0, d1, d2, d3), Inr owner) \<Rightarrow>
          Some \<lparr>cred_id = toNumber (unat tokenId), studentName = d0, degree = d1,
                university = d2, ipfsHash = d3, recipientAddress = Some owner\<rparr>
      | _ \<Rightarrow> None)"

definition owned_item :: "contract_api \<Rightarrow> string \<Rightarrow> nat \<Rightarrow> credential option" where
  "owned_item c addr i =
     (case tokenOfOwnerByIndex c addr i of
        Inl err \<Rightarrow> None
      | Inr tokenId \<Rightarrow>
          (case verifyCertificate c tokenId of
             Inl err \<Rightarrow> None
           | Inr (d0, d1, d2, d3) \<Rightarrow>
               Some \<lparr>cred_id = toNumber (unat tokenId), studentName = d0, degree = d1,
                     university = d2, ipfsHash = d3, recipientAddress = None\<rparr>))"

text \<open>
  The message shown for a failed contract call, as both submit handlers compute it in
  their \<open>catch\<close>, from the page's default text.
\<close>

definition error_message :: "string \<Rightarrow> js_error \<Rightarrow> string" where
  "error_message dflt err =
     (if truthy (reason err) then (case reason err of Some r \<Rightarrow> r | None \<Rightarrow> dflt)
      else if truthy (message err) then
        (case message err of Some m \<Rightarrow> js_trim (split_head CHR ''('' m) | None \<Rightarrow> dflt)
      else dflt)"

definition issue_error_message :: "js_error \<Rightarrow> string" where
  "issue_error_message err =
     error_message ''There was an error issuing the credential. Please try again.'' err"

definition verify_error_message :: "js_error \<Rightarrow> string" where
  "verify_error_message err =
     error_message ''The credential could not be verified. It may not exist or there was an error.'' err"

section \<open>Concrete wallets, states and contracts\<close>

text \<open>A wallet that does not know the required chain and accepts its registration.\<close>

definition unknown_chain_wallet :: wallet where
  "unknown_chain_wallet =
     good_wallet\<lparr>request :=
       (\<lambda>r. case r of
               SwitchEthereumChain h \<Rightarrow> Some \<lparr>code = Some 4902, reason = None, message = Some ''Unrecognized chain ID''\<rparr>
             | _ \<Rightarrow> None)\<rparr>"

text \<open>A wallet whose user turns the account request down (code 4001).\<close>

definition user_rejected :: js_error where
  "user_rejected = \<lparr>code = Some 4001, reason = None, message = Some ''User rejected the request.''\<rparr>"

definition rejecting_wallet :: wallet where
  "rejecting_wallet =
     good_wallet\<lparr>request := (\<lambda>r. case r of RequestAccounts \<Rightarrow> Some user_rejected | _ \<Rightarrow> None)\<rparr>"

text \<open>The same wallet switched to chain 1, with no chain-changed event delivered.\<close>

definition other_chain_wallet :: wallet where
  "other_chain_wallet = good_wallet\<lparr>getNetwork := Inr (Network 1 ''mainnet'')\<rparr>"

text \<open>The session after a load with \<open>good_wallet\<close> injected.\<close>

definition connected_session :: session where
  "connected_session = initialize (Some good_wallet) initial_session"

text \<open>The six session fields named by the connect contract agree in two states.\<close>

definition same_fields :: "session \<Rightarrow> session \<Rightarrow> bool" where
  "same_fields s s' =
     (provider s' = provider s \<and> signer s' = signer s \<and> contract s' = contract s \<and>
      address s' = address s \<and> chainId s' = chainId s \<and> networkName s' = networkName s)"

text \<open>
  \<open>AuthProvider\<close> after its stored-session check found nothing, and after the address
  effect has then run against the connected session.
\<close>

definition empty_auth :: auth where
  "empty_auth = \<lparr>user = None, isLoading = False, localStorage = Map.empty, auth_toasts = []\<rparr>"

definition wallet_auth :: auth where
  "wallet_auth = handleWalletConnection connected_session empty_auth"

text \<open>An institution account, logged in while the wallet is connected.\<close>

definition institution_auth :: auth where
  "institution_auth = login ''k3j9x2a'' connected_session ''a@institution.org'' ''secret'' empty_auth"

definition revert_error :: js_error where
  "revert_error = \<lparr>code = None, reason = Some ''ERC721: invalid token ID'',
                    message = Some ''execution reverted (action=call)''\<rparr>"

text \<open>
  A contract with tokens 1, 2 and 3, all issued by and owned by the connected address,
  on which every lookup of token 2 reverts.
\<close>

definition sample_contract :: contract_api where
  "sample_contract =
     \<lparr>getIssuedCertificates = (\<lambda>issuer. Inr [1, 2, 3]),
      verifyCertificate =
        (\<lambda>t. if t = 2 then Inl revert_error
             else Inr (''Ada'', ''BSc Mathematics'', ''Open University'', ''QmHash'')),
      ownerOf = (\<lambda>t. if t = 2 then Inl revert_error else Inr ''0xRecipient''),
      balanceOf = (\<lambda>owner. Inr 3),
      tokenOfOwnerByIndex = (\<lambda>owner i. Inr (of_nat (Suc i)))\<rparr>"

definition empty_page :: page where
  "empty_page = \<lparr>credentials = [], loading = False, fetch_error = None, reputationScore = 0\<rparr>"

text \<open>Failure objects: a revert whose reason is the empty string, and one with no fields.\<close>

definition empty_reason_error :: js_error where
  "empty_reason_error = revert_error\<lparr>reason := Some []\<rparr>"

definition bare_error :: js_error where
  "bare_error = \<lparr>code = None, reason = None, message = None\<rparr>"

section \<open>Facts about the string helpers\<close>

lemma startsWith_iff: "startsWith s p = (\<exists>post. s = p @ post)"
proof
  assume "startsWith s p"
  then have "s = p @ drop (length p) s"
    by (metis startsWith_def append_take_drop_id)
  then show "\<exists>post. s = p @ post" ..
next
  assume "\<exists>post. s = p @ post"
  then show "startsWith s p" by (auto simp: startsWith_def)
qed

lemma js_includes_iff: "js_includes s p = (\<exists>pre post. s = pre @ p @ post)"
proof (induction s)
  case Nil
  then show ?case by auto
next
  case (Cons c cs)
  show ?case
  proof
    assume "js_includes (c # cs) p"
    then consider "startsWith (c # cs) p" | "js_includes cs p" by auto
    then show "\<exists>pre post. c # cs = pre @ p @ post"
    proof cases
      case 1
      then obtain post where "c # cs = p @ post" by (auto simp: startsWith_iff)
      then have "c # cs = [] @ p @ post" by simp
      then show ?thesis by blast
    next
      case 2
      then obtain pre post where "cs = pre @ p @ post" using Cons.IH by auto
      then have "c # cs = (c # pre) @ p @ post" by simp
      then show ?thesis by blast
    qed
  next
    assume "\<exists>pre post. c # cs = pre @ p @ post"
    then obtain pre post where eq: "c # cs = pre @ p @ post" by blast
    show "js_includes (c # cs) p"
    proof (cases pre)
      case Nil
      with eq have "startsWith (c # cs) p" by (auto simp: startsWith_iff)
      then show ?thesis by simp
    next
      case (Cons d ds)
      with eq have "cs = ds @ p @ post" by simp
      then have "js_includes cs p" using Cons.IH by blast
      then show ?thesis by simp
    qed
  qed
qed

lemma split_head_decomp:
  "\<exists>rest. s = split_head sep s @ rest \<and> sep \<notin> set (split_head sep s) \<and> (rest = [] \<or> hd rest = sep)"
proof -
  have "s = split_head sep s @ dropWhile (\<lambda>c. c \<noteq> sep) s"
    by (simp add: split_head_def)
  moreover have "sep \<notin> set (split_head sep s)"
    by (auto simp: split_head_def dest: set_takeWhileD)
  moreover have "dropWhile (\<lambda>c. c \<noteq> sep) s = [] \<or> hd (dropWhile (\<lambda>c. c \<noteq> sep) s) = sep"
    using hd_dropWhile [of "\<lambda>c. c \<noteq> sep" s] by auto
  ultimately show ?thesis by blast
qed

lemma rev_dropWhile_split: "t = rev (dropWhile P (rev t)) @ rev (takeWhile P (rev t))"
proof -
  have "rev (rev t) = rev (takeWhile P (rev t) @ dropWhile P (rev t))"
    by (simp only: takeWhile_dropWhile_id)
  then show ?thesis by (simp only: rev_rev_ident rev_append)
qed

lemma js_trim_decomp:
  "\<exists>l r. s = l @ js_trim s @ r \<and> (\<forall>c\<in>set l. is_space c) \<and> (\<forall>c\<in>set r. is_space c)"
proof -
  let ?t = "dropWhile is_space s"
  have a: "s = takeWhile is_space s @ ?t" by simp
  have b: "?t = js_trim s @ rev (takeWhile is_space (rev ?t))"
    unfolding js_trim_def by (rule rev_dropWhile_split)
  have "s = takeWhile is_space s @ js_trim s @ rev (takeWhile is_space (rev ?t))"
    using a b by metis
  moreover have "\<forall>c\<in>set (takeWhile is_space s). is_space c"
    by (auto dest: set_takeWhileD)
  moreover have "\<forall>c\<in>set (rev (takeWhile is_space (rev ?t))). is_space c"
    by (auto dest: set_takeWhileD)
  ultimately show ?thesis by blast
qed

lemma js_trim_ends:
  assumes ne: "js_trim s \<noteq> []"
  shows "\<not> is_space (hd (js_trim s)) \<and> \<not> is_space (last (js_trim s))"
proof
  let ?t = "dropWhile is_space s"
  let ?u = "dropWhile is_space (rev ?t)"
  from ne have une: "?u \<noteq> []" by (simp add: js_trim_def)
  then have "\<not> is_space (hd ?u)" by (rule hd_dropWhile)
  then show "\<not> is_space (last (js_trim s))"
    using une by (simp add: js_trim_def last_rev)
  have tne: "?t \<noteq> []"
    using une by (metis dropWhile.simps(1) rev.simps(1))
  then have h: "\<not> is_space (hd ?t)" by (rule hd_dropWhile)
  have "?t = js_trim s @ rev (takeWhile is_space (rev ?t))"
    unfolding js_trim_def by (rule rev_dropWhile_split)
  then have "hd ?t = hd (js_trim s)"
    using ne by (metis hd_append2)
  then show "\<not> is_space (hd (js_trim s))"
    using h by simp
qed

lemma required_chain_hex: "toString16 REQUIRED_CHAIN_ID = ''a045c''"
  by (simp add: toString16_def REQUIRED_CHAIN_ID_def hex_digits.simps hex_digit_def)

lemma toNumber_small: "n \<le> 2 ^ 53 \<Longrightarrow> toNumber n = n"
  by (simp add: toNumber_def)

lemma parseInt16_0x1: "parseInt16 ''0x1'' = Num 1"
  by (simp add: parseInt16_def is_space_def startsWith_def hex_digit_val_def toNumber_def)

lemma parseInt16_required: "parseInt16 ''0xa045c'' = Num REQUIRED_CHAIN_ID"
  by (simp add: parseInt16_def is_space_def startsWith_def hex_digit_val_def toNumber_def
        REQUIRED_CHAIN_ID_def)


section \<open>Network gating\<close>

lemma inv_initial: "session_inv c initial_session"
  by (simp add: session_inv_def initial_session_def)

lemma inv_checkConnection:
  "reports c w \<Longrightarrow> session_inv c s \<Longrightarrow> session_inv c (checkConnection w s)"
  by (auto simp: session_inv_def checkConnection_def reports_def Let_def
           split: sum.splits network.splits option.splits)

lemma inv_provider: "session_inv c s \<Longrightarrow> session_inv c (s\<lparr>provider := p\<rparr>)"
  by (simp add: session_inv_def split: option.splits)

lemma inv_initialize:
  "steady c (Initialize eth) \<Longrightarrow> session_inv c s \<Longrightarrow> session_inv c (initialize eth s)"
  by (cases eth) (simp_all add: initialize_def inv_checkConnection inv_provider)

lemma inv_connect_seen:
  "reports c w \<Longrightarrow> session_inv c s \<Longrightarrow> session_inv c (snd (connectWalletSeen seen w s))"
  by (auto simp: session_inv_def connectWalletSeen_def connect_failed_def toast_def reports_def
                 Let_def
           split: sum.splits network.splits option.splits)

lemma inv_connect:
  "reports c w \<Longrightarrow> session_inv c s \<Longrightarrow> session_inv c (snd (connectWallet w s))"
  by (simp add: connectWallet_def inv_connect_seen)

lemma inv_disconnect: "session_inv c s \<Longrightarrow> session_inv c (snd (disconnectWeb3Wallet s))"
  by (auto simp: session_inv_def disconnectWeb3Wallet_def toast_def)

lemma inv_accounts:
  "reports c w \<Longrightarrow> session_inv c s \<Longrightarrow>
   session_inv c (handleAccountsChanged seen w accounts s)"
  by (auto simp: handleAccountsChanged_def inv_connect_seen) (auto simp: session_inv_def toast_def)

lemma inv_step: "steady c e \<Longrightarrow> session_inv c s \<Longrightarrow> session_inv c (step e s)"
  by (cases e)
     (simp_all add: inv_initialize inv_connect inv_disconnect inv_accounts reload_def inv_initial)

lemma inv_run: "\<forall>e\<in>set es. steady c e \<Longrightarrow> session_inv c s \<Longrightarrow> session_inv c (run es s)"
  unfolding run_def by (induction es arbitrary: s) (simp_all add: inv_step)

lemma inv_gating: "session_inv c s \<Longrightarrow> gating s"
  by (auto simp: session_inv_def gating_def split: option.splits)

lemma run_append: "run (xs @ ys) s = run ys (run xs s)"
  by (simp add: run_def)

lemma run_Cons: "run (e # es) s = run es (step e s)"
  by (simp add: run_def)

lemma connected_session_fields:
  "contract connected_session = Some (Contract contractAddress contractABI (Signer 0)) \<and>
   signer connected_session = Some (Signer 0) \<and>
   address connected_session = Some ''0xABCDEF0123456789abcdef0123456789ABCD1234'' \<and>
   chainId connected_session = Some (Num REQUIRED_CHAIN_ID) \<and>
   provider connected_session = Some BrowserProvider"
  by (simp add: connected_session_def initialize_def checkConnection_def good_wallet_def
        initial_session_def)

text \<open>
  Why the network answers must agree: a connect that reads another chain than the load
  did sets \<open>chainId\<close> and leaves the bound handle in place. A wallet announces such a
  change by a chain-changed event, which reloads the page.
\<close>

lemma gating_needs_one_chain:
  "\<not> gating (run [Initialize (Some good_wallet), Connect other_chain_wallet] initial_session)"
  by (simp add: run_def gating_def initialize_def checkConnection_def connectWallet_def
        connectWalletSeen_def toast_def other_chain_wallet_def good_wallet_def
        initial_session_def REQUIRED_CHAIN_ID_def)

text \<open>
  C1, as stated, fails: after a load on the required chain with an authorised account the
  contract handle is bound; a chain-changed event to chain 1 then sets \<open>chainId\<close> to 1 and
  leaves the handle bound, so the state that follows the handler breaks the equivalence.
\<close>

theorem network_gating_counterexample:
  "\<not> gating (run [Initialize (Some good_wallet), ChainChanged ''0x1''] initial_session)"
  by (simp add: run_def gating_def initialize_def checkConnection_def good_wallet_def
        initial_session_def handleChainChanged_def parseInt16_0x1 REQUIRED_CHAIN_ID_def)

text \<open>
  C1 (amended). From a fresh load, and from the reload that follows any earlier history
  \<open>pre\<close> (chain-changed events included), every state reached by initialize, connect,
  disconnect and accounts-changed transitions whose network answers all name one chain
  \<open>c\<close> satisfies network gating: the contract handle is non-null exactly when \<open>chainId\<close> is
  the required chain and \<open>address\<close> is non-null, and a non-null handle implies a non-null
  signer and the required chain.
\<close>

theorem network_gating_steady:
  assumes "\<forall>e\<in>set es. steady c e"
  shows "gating (run es initial_session) \<and> gating (run (pre @ Reload # es) s0)"
proof -
  have "session_inv c (run es initial_session)"
    using assms by (rule inv_run) (rule inv_initial)
  moreover have "run (pre @ Reload # es) s0 = run es initial_session"
    by (simp add: run_append run_Cons reload_def)
  ultimately show ?thesis by (simp add: inv_gating)
qed

theorem network_gating_steady_witness:
  "gating (run [Initialize (Some good_wallet), Connect good_wallet, Disconnect,
                AccountsChanged None good_wallet [''0xA''],
                AccountsChanged (Some BrowserProvider) good_wallet [''0xA''],
                AccountsChanged None good_wallet []]
             initial_session) \<and>
   gating (run ([Initialize (Some good_wallet), ChainChanged ''0x1''] @ Reload #
                [Initialize (Some good_wallet), Connect good_wallet, Disconnect,
                 AccountsChanged None good_wallet [''0xA''],
                AccountsChanged (Some BrowserProvider) good_wallet [''0xA''],
                AccountsChanged None good_wallet []])
             initial_session)"
  using network_gating_steady
          [of "[Initialize (Some good_wallet), Connect good_wallet, Disconnect,
                AccountsChanged None good_wallet [''0xA''],
                AccountsChanged (Some BrowserProvider) good_wallet [''0xA''],
                AccountsChanged None good_wallet []]"
              REQUIRED_CHAIN_ID
              "[Initialize (Some good_wallet), ChainChanged ''0x1'']" initial_session]
  by (simp add: reports_def good_wallet_def)

section \<open>Chain-changed events\<close>

text \<open>
  C2, as stated, fails: in the connected session the handle is bound, and it is still
  bound in the state the chain-changed handler leaves.
\<close>

theorem chain_changed_reset_counterexample:
  "contract connected_session \<noteq> None \<and>
   contract (handleChainChanged ''0x1'' connected_session) \<noteq> None"
  by (simp add: connected_session_fields handleChainChanged_def Let_def)

text \<open>
  C2 (amended). For every state and every payload of the event, the chain-changed handler
  leaves the contract handle as it was and calls for a reload; the handle is null once
  that reload has reset the session. For a payload of ASCII characters whose hexadecimal
  value has magnitude at most \<open>2^53\<close> (or that holds no digit), the handler sets
  \<open>chainId\<close> to the parsed id and \<open>isCorrectNetwork\<close> to its comparison with the required
  chain.
\<close>

theorem chain_changed_then_reload:
  "contract (handleChainChanged chainIdHex s) = contract s \<and>
   reloads (handleChainChanged chainIdHex s) = Suc (reloads s) \<and>
   contract (reload (handleChainChanged chainIdHex s)) = None \<and>
   (list_all is_ascii chainIdHex \<and> exact_number (parseInt16 chainIdHex) \<longrightarrow>
      chainId (handleChainChanged chainIdHex s) = Some (parseInt16 chainIdHex) \<and>
      isCorrectNetwork (handleChainChanged chainIdHex s) =
        (parseInt16 chainIdHex = Num REQUIRED_CHAIN_ID))"
  by (simp add: handleChainChanged_def Let_def reload_def initial_session_def)

theorem chain_changed_then_reload_witness:
  "contract (handleChainChanged ''0xa045c'' connected_session) = contract connected_session \<and>
   contract (reload (handleChainChanged ''0xa045c'' connected_session)) = None \<and>
   chainId (handleChainChanged ''0xa045c'' connected_session) = Some (Num 656476) \<and>
   isCorrectNetwork (handleChainChanged ''0xa045c'' connected_session)"
proof -
  have a: "list_all is_ascii ''0xa045c''" by (simp add: is_ascii_def)
  have e: "exact_number (parseInt16 ''0xa045c'')"
    by (simp add: parseInt16_required REQUIRED_CHAIN_ID_def)
  show ?thesis
    using a e chain_changed_then_reload [of "''0xa045c''" connected_session]
    by (simp add: parseInt16_required REQUIRED_CHAIN_ID_def)
qed

section \<open>Connecting\<close>

text \<open>
  C5, as stated, fails: with no provider \<open>connectWallet\<close> does not fail; it returns
  without a value.
\<close>

theorem connect_no_provider_counterexample:
  "provider initial_session = None \<and>
   fst (connectWallet good_wallet initial_session) = Inr None"
  by (simp add: connectWallet_def connectWalletSeen_def initial_session_def)

text \<open>
  C5 (amended). When the account request, the network read, the signer and its address
  all succeed, \<open>connectWallet\<close> returns the new address and sets \<open>address\<close>, \<open>signer\<close>,
  \<open>chainId\<close> and \<open>networkName\<close>, binding the contract on the required chain and leaving the
  handle as it was on any other. When the wallet rejects the account request it throws
  the wallet's error and leaves provider, signer, contract, address, chainId and
  networkName unchanged. When no provider is present it shows the notification
  ``No provider found'' and returns without a value and without failing, the same six
  fields unchanged.
\<close>

theorem connect_outcomes:
  "(provider s \<noteq> None \<and> request w RequestAccounts = None \<and>
    getNetwork w = Inr (Network cid nm) \<and> getSigner w = Inr sg \<and> getAddress w sg = Inr a \<longrightarrow>
      (case connectWallet w s of
         (r, s') \<Rightarrow>
           r = Inr (Some a) \<and> address s' = Some a \<and> signer s' = Some sg \<and>
           chainId s' = Some (Num cid) \<and> networkName s' = Some nm \<and>
           isCorrectNetwork s' = (cid = REQUIRED_CHAIN_ID) \<and>
           contract s' =
             (if cid = REQUIRED_CHAIN_ID then Some (Contract contractAddress contractABI sg)
              else contract s))) \<and>
   (provider s \<noteq> None \<and> request w RequestAccounts = Some e \<longrightarrow>
      (case connectWallet w s of (r, s') \<Rightarrow> r = Inl e \<and> same_fields s s')) \<and>
   (provider s = None \<longrightarrow>
      (case connectWallet w s of
         (r, s') \<Rightarrow>
           r = Inr None \<and> same_fields s s' \<and>
           toasts s' = toasts s @
             [Toast ''No provider found'' ''Please install MetaMask or another Web3 wallet.''
                Destructive]))"
  by (simp add: connectWallet_def connectWalletSeen_def connect_failed_def toast_def
        same_fields_def Let_def)

theorem connect_outcomes_witness:
  "(case connectWallet good_wallet connected_session of
      (r, s') \<Rightarrow>
        r = Inr (Some ''0xABCDEF0123456789abcdef0123456789ABCD1234'') \<and>
        address s' = Some ''0xABCDEF0123456789abcdef0123456789ABCD1234'' \<and>
        chainId s' = Some (Num REQUIRED_CHAIN_ID) \<and>
        contract s' = Some (Contract contractAddress contractABI (Signer 0))) \<and>
   (case connectWallet rejecting_wallet connected_session of
      (r, s') \<Rightarrow> r = Inl user_rejected \<and> same_fields connected_session s') \<and>
   (case connectWallet good_wallet initial_session of
      (r, s') \<Rightarrow> r = Inr None \<and> same_fields initial_session s')"
proof -
  have p: "provider connected_session \<noteq> None"
    by (simp add: connected_session_fields)
  show ?thesis
    using p
      connect_outcomes [of connected_session good_wallet REQUIRED_CHAIN_ID "''open-campus-codex''"
                           "Signer 0" "''0xABCDEF0123456789abcdef0123456789ABCD1234''" user_rejected]
      connect_outcomes [of connected_session rejecting_wallet 0 "[]" "Signer 0" "[]" user_rejected]
      connect_outcomes [of initial_session good_wallet 0 "[]" "Signer 0" "[]" user_rejected]
    by (simp add: good_wallet_def rejecting_wallet_def initial_session_def split: prod.splits)
qed

section \<open>Switching the network\<close>

text \<open>
  C4, as stated, fails: when the wallet answers the switch request with code 4902 and then
  accepts the chain, the requests sent are the switch and the add-chain request and no
  more; the switch is not requested again.
\<close>

theorem switch_network_no_retry_counterexample:
  "requests (switchNetwork (Some unknown_chain_wallet) initial_session) =
     [SwitchEthereumChain ''0xa045c'', AddEthereumChain requiredChainParams]"
  by (simp add: switchNetwork_def unknown_chain_wallet_def good_wallet_def initial_session_def
        required_chain_hex Let_def toast_def)

text \<open>
  C4 (amended). \<open>switchNetwork\<close> sends one switch request for the required chain. When that
  request fails with error code 4902 it then sends one add-chain request with the fixed
  descriptor and nothing after it (the switch is not requested again); when it fails with
  any other code, or succeeds, no add-chain request is sent. A failure of either request
  ends in a notification. With no injected wallet nothing is requested.
\<close>

theorem switch_network_requests:
  "requests (switchNetwork (Some w) s) =
     requests s @
       (case request w (SwitchEthereumChain (''0x'' @ toString16 REQUIRED_CHAIN_ID)) of
          None \<Rightarrow> [SwitchEthereumChain (''0x'' @ toString16 REQUIRED_CHAIN_ID)]
        | Some switchError \<Rightarrow>
            if code switchError = Some 4902
            then [SwitchEthereumChain (''0x'' @ toString16 REQUIRED_CHAIN_ID),
                  AddEthereumChain requiredChainParams]
            else [SwitchEthereumChain (''0x'' @ toString16 REQUIRED_CHAIN_ID)]) \<and>
   toasts (switchNetwork (Some w) s) =
     toasts s @
       (case request w (SwitchEthereumChain (''0x'' @ toString16 REQUIRED_CHAIN_ID)) of
          None \<Rightarrow> []
        | Some switchError \<Rightarrow>
            if code switchError = Some 4902
            then (case request w (AddEthereumChain requiredChainParams) of
                    None \<Rightarrow> []
                  | Some addError \<Rightarrow>
                      [Toast ''Network switch failed''
                         ''Could not add the required network to your wallet.'' Destructive])
            else [Toast ''Network switch failed''
                    ''Could not switch to the required network.'' Destructive]) \<and>
   requests (switchNetwork None s) = requests s \<and>
   requiredChainParams =
     ChainParams ''0xa045c'' ''Open Campus Codex'' (NativeCurrency ''OCC Token'' ''OCC'' 18)
       [''https://rpc.open-campus-codex.gelato.digital/'']
       [''https://explorer.open-campus-codex.gelato.digital/'']"
  by (simp add: switchNetwork_def Let_def toast_def requiredChainParams_def required_chain_hex
           split: option.splits)

section \<open>Identity synchronisation\<close>

lemma wallet_auth_user:
  "user wallet_auth =
     Some \<lparr>user_id = ''wallet-0xABCDEF0123456789abcdef0123456789ABCD1234'',
           name = ''User 0xABCD'', email = None, accountType = Student,
           walletAddress = Some ''0xABCDEF0123456789abcdef0123456789ABCD1234''\<rparr>"
  by (simp add: wallet_auth_def handleWalletConnection_def connected_session_fields truthy_def
        empty_auth_def eduverify_user_def persist_def auth_toast_def slice_to_def Let_def)

text \<open>
  C3, as stated, fails: unlinking the wallet account of the connected session sets the
  session's address to null.
\<close>

theorem unlink_independence_counterexample:
  "address connected_session = Some ''0xABCDEF0123456789abcdef0123456789ABCD1234'' \<and>
   map_option walletAddress (user wallet_auth) =
     Some (Some ''0xABCDEF0123456789abcdef0123456789ABCD1234'') \<and>
   address (fst (disconnectWallet connected_session wallet_auth)) = None"
  by (simp add: connected_session_fields wallet_auth_user disconnectWallet_def
        disconnectWeb3Wallet_def toast_def Let_def)

text \<open>
  C3 (amended). For every state with an active identity, the account-level
  \<open>disconnectWallet\<close> clears \<open>walletAddress\<close> on the identity, keeps its other fields and
  persists the record, and it also runs the chain session's disconnect: the session's
  \<open>address\<close>, \<open>signer\<close> and \<open>contract\<close> become null, while \<open>provider\<close>, \<open>chainId\<close> and
  \<open>networkName\<close> stay as they were.
\<close>

theorem unlink_clears_link_and_session:
  assumes "user a = Some u"
  shows "case disconnectWallet s a of
           (s', a') \<Rightarrow>
             user a' = Some (u\<lparr>walletAddress := None\<rparr>) \<and>
             localStorage a' eduverify_user = Some (u\<lparr>walletAddress := None\<rparr>) \<and>
             address s' = None \<and> signer s' = None \<and> contract s' = None \<and>
             provider s' = provider s \<and> chainId s' = chainId s \<and>
             networkName s' = networkName s"
  using assms
  by (simp add: disconnectWallet_def disconnectWeb3Wallet_def toast_def persist_def
        auth_toast_def Let_def)

theorem unlink_clears_link_and_session_witness:
  "case disconnectWallet connected_session wallet_auth of
     (s', a') \<Rightarrow>
       map_option walletAddress (user a') = Some None \<and>
       map_option user_id (user a') = Some ''wallet-0xABCDEF0123456789abcdef0123456789ABCD1234'' \<and>
       localStorage a' eduverify_user = user a' \<and>
       address s' = None \<and> signer s' = None \<and> contract s' = None \<and>
       chainId s' = Some (Num REQUIRED_CHAIN_ID)"
  using unlink_clears_link_and_session [OF wallet_auth_user, of connected_session]
  by (simp add: connected_session_fields split: prod.splits)

text \<open>
  C8. For every address string that is not empty (a signer's address never is), when no
  identity is stored and the chain session holds that address, the address effect, run
  after the stored-session check, creates and persists an identity with \<open>id\<close> equal to
  ``wallet-'' followed by the address, \<open>accountType\<close> student and \<open>name\<close> equal to
  ``User '' followed by the first six characters of the address, with the address as
  \<open>walletAddress\<close>. Whenever \<open>isLoading\<close> is already false the effect does so directly.
\<close>

theorem identity_synthesis:
  assumes "address s = Some addr" and "addr \<noteq> []"
    and "localStorage a eduverify_user = None"
  shows "user (handleWalletConnection s (checkSession a)) =
           Some \<lparr>user_id = ''wallet-'' @ addr, name = ''User '' @ take 6 addr, email = None,
                 accountType = Student, walletAddress = Some addr\<rparr> \<and>
         localStorage (handleWalletConnection s (checkSession a)) eduverify_user =
           user (handleWalletConnection s (checkSession a)) \<and>
         (\<not> isLoading a \<longrightarrow>
            user (handleWalletConnection s a) =
              Some \<lparr>user_id = ''wallet-'' @ addr, name = ''User '' @ take 6 addr, email = None,
                    accountType = Student, walletAddress = Some addr\<rparr> \<and>
            localStorage (handleWalletConnection s a) eduverify_user =
              user (handleWalletConnection s a))"
  using assms
  by (simp add: handleWalletConnection_def checkSession_def truthy_def persist_def
        auth_toast_def slice_to_def Let_def)

theorem identity_synthesis_witness:
  "user (handleWalletConnection connected_session (checkSession (empty_auth\<lparr>isLoading := True\<rparr>))) =
     Some \<lparr>user_id = ''wallet-0xABCDEF0123456789abcdef0123456789ABCD1234'',
           name = ''User 0xABCD'', email = None, accountType = Student,
           walletAddress = Some ''0xABCDEF0123456789abcdef0123456789ABCD1234''\<rparr> \<and>
   localStorage (handleWalletConnection connected_session
                   (checkSession (empty_auth\<lparr>isLoading := True\<rparr>))) eduverify_user =
     user (handleWalletConnection connected_session (checkSession (empty_auth\<lparr>isLoading := True\<rparr>)))"
proof -
  have a: "address connected_session = Some ''0xABCDEF0123456789abcdef0123456789ABCD1234''"
    by (simp add: connected_session_fields)
  have n: "''0xABCDEF0123456789abcdef0123456789ABCD1234'' \<noteq> []" by simp
  have e: "localStorage (empty_auth\<lparr>isLoading := True\<rparr>) eduverify_user = None"
    by (simp add: empty_auth_def)
  show ?thesis using identity_synthesis [OF a n e] by simp
qed

section \<open>Login and registration\<close>

lemma login_user:
  "user (login rid s mail password a) =
     Some \<lparr>user_id = rid,
           name = (if js_includes mail ''institution''
                   then split_head CHR ''@'' mail @ '' University'' else split_head CHR ''@'' mail),
           email = Some mail,
           accountType = (if js_includes mail ''institution'' then Institution else Student),
           walletAddress = (if truthy (address s) then address s else None)\<rparr>"
  by (simp add: login_def Let_def persist_def auth_toast_def)

lemma login_persists:
  "localStorage (login rid s mail password a) eduverify_user = user (login rid s mail password a)"
  by (simp add: login_def Let_def persist_def auth_toast_def)

lemma register_user:
  "user (register rid s userData a) =
     Some \<lparr>user_id = rid, name = reg_name userData, email = reg_email userData,
           accountType = reg_accountType userData,
           walletAddress = (if truthy (address s) then address s else None)\<rparr>"
  by (simp add: register_def Let_def persist_def auth_toast_def)

lemma includes_institution_org: "js_includes ''a@institution.org'' ''institution''"
  by (simp add: startsWith_def)

lemma includes_school_org: "\<not> js_includes ''a@school.org'' ''institution''"
  by (simp add: startsWith_def)

text \<open>
  C9. For every email and password, \<open>login\<close> produces and persists an identity whose
  \<open>accountType\<close> is institution exactly when the email contains the substring
  ``institution'' (that is, the email is some text, then ``institution'', then some text),
  and student otherwise; \<open>login("a@institution.org", pw)\<close> yields institution and
  \<open>login("a@school.org", pw)\<close> yields student.
\<close>

theorem login_heuristic:
  "map_option accountType (user (login rid s mail password a)) =
     Some (if \<exists>pre post. mail = pre @ ''institution'' @ post then Institution else Student) \<and>
   localStorage (login rid s mail password a) eduverify_user = user (login rid s mail password a) \<and>
   map_option accountType (user (login rid s ''a@institution.org'' password a)) = Some Institution \<and>
   map_option accountType (user (login rid s ''a@school.org'' password a)) = Some Student"
proof -
  have t: "\<And>m. map_option accountType (user (login rid s m password a)) =
             Some (if js_includes m ''institution'' then Institution else Student)"
    by (simp add: login_user)
  have "map_option accountType (user (login rid s mail password a)) =
          Some (if \<exists>pre post. mail = pre @ ''institution'' @ post then Institution else Student)"
    unfolding t js_includes_iff ..
  moreover have "map_option accountType (user (login rid s ''a@institution.org'' password a)) =
                   Some Institution"
    unfolding t using includes_institution_org by simp
  moreover have "map_option accountType (user (login rid s ''a@school.org'' password a)) =
                   Some Student"
    unfolding t using includes_school_org by simp
  ultimately show ?thesis
    using login_persists by blast
qed

text \<open>
  C10. For every login and every registration performed while the chain session's
  address is non-null (a wallet address, which is never the empty string), the new
  identity's \<open>walletAddress\<close> is that session address; when the session's address is null
  the field is left absent. The caller makes no link call.
\<close>

theorem auto_link_on_login_and_register:
  "(address s = Some addr \<and> addr \<noteq> [] \<longrightarrow>
      map_option walletAddress (user (login rid s mail password a)) = Some (Some addr) \<and>
      map_option walletAddress (user (register rid s userData a)) = Some (Some addr)) \<and>
   (address s = None \<longrightarrow>
      map_option walletAddress (user (login rid s mail password a)) = Some None \<and>
      map_option walletAddress (user (register rid s userData a)) = Some None)"
  by (simp add: login_user register_user truthy_def)

theorem auto_link_on_login_and_register_witness:
  "map_option walletAddress
     (user (login ''k3j9x2a'' connected_session ''a@school.org'' ''secret'' empty_auth)) =
     Some (Some ''0xABCDEF0123456789abcdef0123456789ABCD1234'') \<and>
   map_option walletAddress
     (user (register ''k3j9x2a'' connected_session
              \<lparr>reg_name = ''Ada'', reg_email = Some ''a@school.org'', reg_accountType = Student\<rparr>
              empty_auth)) =
     Some (Some ''0xABCDEF0123456789abcdef0123456789ABCD1234'') \<and>
   map_option walletAddress
     (user (login ''k3j9x2a'' initial_session ''a@school.org'' ''secret'' empty_auth)) = Some None \<and>
   map_option walletAddress
     (user (register ''k3j9x2a'' initial_session
              \<lparr>reg_name = ''Ada'', reg_email = Some ''a@school.org'', reg_accountType = Student\<rparr>
              empty_auth)) = Some None"
  using auto_link_on_login_and_register
          [of connected_session "''0xABCDEF0123456789abcdef0123456789ABCD1234''" "''k3j9x2a''"
              "''a@school.org''" "''secret''" empty_auth
              "\<lparr>reg_name = ''Ada'', reg_email = Some ''a@school.org'', reg_accountType = Student\<rparr>"]
        auto_link_on_login_and_register
          [of initial_session "[]" "''k3j9x2a''" "''a@school.org''" "''secret''" empty_auth
              "\<lparr>reg_name = ''Ada'', reg_email = Some ''a@school.org'', reg_accountType = Student\<rparr>"]
  by (simp add: connected_session_fields initial_session_def)

section \<open>Batch reads of credentials\<close>

lemma issued_loop_acc:
  "issued_loop c ids acc = acc @ List.map_filter (issued_item c) ids"
  by (induction ids arbitrary: acc)
     (simp_all add: issued_item_def map_filter_simps split: sum.splits prod.splits)

text \<open>Below \<open>2^53\<close> the counter is exact and the loop over the indices ends.\<close>

lemma owned_loop_acc:
  assumes "count \<le> 2 ^ 53"
  shows "owned_loop c addr i count acc =
           Some (acc @ List.map_filter (owned_item c addr) [i..<count])"
proof (induction "count - i" arbitrary: i acc)
  case 0
  then have "\<not> i < count" by simp
  then show ?case
    by (simp add: owned_loop.simps [of c addr i count acc])
next
  case (Suc n)
  then have lt: "i < count" by simp
  then have u: "[i..<count] = i # [Suc i..<count]" by (rule upt_conv_Cons)
  from lt assms have "Suc i \<le> 2 ^ 53" by simp
  then have inc: "toNumber (Suc i) = Suc i" by (rule toNumber_small)
  from Suc have "n = count - Suc i" by simp
  then have IH: "\<And>acc'. owned_loop c addr (Suc i) count acc' =
                          Some (acc' @ List.map_filter (owned_item c addr) [Suc i..<count])"
    using Suc.hyps(1) by blast
  have item: "owned_item c addr i =
                (case tokenOfOwnerByIndex c addr i of
                   Inl err \<Rightarrow> None
                 | Inr tokenId \<Rightarrow>
                     (case verifyCertificate c tokenId of
                        Inl err \<Rightarrow> None
                      | Inr (d0, d1, d2, d3) \<Rightarrow>
                          Some \<lparr>cred_id = toNumber (unat tokenId), studentName = d0, degree = d1,
                                university = d2, ipfsHash = d3, recipientAddress = None\<rparr>))"
    by (simp add: owned_item_def)
  show ?case
    using lt
    by (subst owned_loop.simps)
       (simp add: u inc IH item split: sum.splits prod.splits)
qed

lemma issued_item_id: "issued_item c t = Some cr \<Longrightarrow> cred_id cr = toNumber (unat t)"
  by (auto simp: issued_item_def split: sum.splits prod.splits)

lemma issued_item_ok:
  "(issued_item c t \<noteq> None) = (\<not> isl (verifyCertificate c t) \<and> \<not> isl (ownerOf c t))"
  by (auto simp: issued_item_def split: sum.splits prod.splits)

lemma map_filter_ids:
  "map cred_id (List.map_filter (issued_item c) ids) =
     map (\<lambda>t. toNumber (unat t)) (filter (\<lambda>t. issued_item c t \<noteq> None) ids)"
  by (induction ids) (auto simp: issued_item_id split: option.splits)

lemma connected_session_network: "isCorrectNetwork connected_session"
  by (simp add: connected_session_def initialize_def checkConnection_def good_wallet_def
        initial_session_def)

lemma institution_auth_type: "map_option accountType (user institution_auth) = Some Institution"
  by (simp add: institution_auth_def login_user startsWith_def)

lemma fetchIssued_credentials:
  assumes "address s = Some addr" "addr \<noteq> []" "isCorrectNetwork s" "contract s \<noteq> None"
    "map_option accountType (user a) = Some Institution" "getIssuedCertificates c addr = Inr ids"
  shows "credentials (fetchIssuedCredentials c s a p) = List.map_filter (issued_item c) ids"
    and "fetch_error (fetchIssuedCredentials c s a p) = None"
  using assms by (auto simp: fetchIssuedCredentials_def issued_loop_acc Let_def)

lemma issued_ids:
  "map cred_id (List.map_filter (issued_item c) ids) =
     map (\<lambda>t. toNumber (unat t))
       (filter (\<lambda>t. \<not> isl (verifyCertificate c t) \<and> \<not> isl (ownerOf c t)) ids)"
  by (simp only: map_filter_ids issued_item_ok)

lemma fetchCredentials_credentials:
  assumes g: "address s = Some addr" "addr \<noteq> []" "isCorrectNetwork s" "contract s \<noteq> None"
    "balanceOf c addr = Inr balance" and b: "unat balance \<le> 2 ^ 53"
  shows "map_option credentials (fetchCredentials c s p) =
           Some (List.map_filter (owned_item c addr) [0..<unat balance])"
    and "map_option fetch_error (fetchCredentials c s p) = Some None"
proof -
  have n: "toNumber (unat balance) = unat balance"
    using b by (rule toNumber_small)
  have l: "owned_loop c addr 0 (unat balance) [] =
             Some (List.map_filter (owned_item c addr) [0..<unat balance])"
    using owned_loop_acc [OF b, of c addr 0 "[]"] by simp
  show "map_option credentials (fetchCredentials c s p) =
          Some (List.map_filter (owned_item c addr) [0..<unat balance])"
    using g by (auto simp: fetchCredentials_def Let_def n l)
  show "map_option fetch_error (fetchCredentials c s p) = Some None"
    using g by (auto simp: fetchCredentials_def Let_def n l)
qed

text \<open>
  C6. In both batch reads the resulting credential list consists of exactly the items
  whose lookups all succeeded, in their original order, whatever other items failed: on
  the issued-credentials page the entries are those of the issued token ids for which
  \<open>verifyCertificate\<close> and \<open>ownerOf\<close> both return, each carrying its token id as a
  number, and on the owner's page (which returns, for a balance of at most \<open>2^53\<close>)
  those of the indices below the balance for which \<open>tokenOfOwnerByIndex\<close> and
  \<open>verifyCertificate\<close> both return. A failing item is skipped and no page error is set.
\<close>

theorem batch_partial_failure:
  "(address s = Some addr \<and> addr \<noteq> [] \<and> isCorrectNetwork s \<and> contract s \<noteq> None \<and>
    map_option accountType (user a) = Some Institution \<and>
    getIssuedCertificates c addr = Inr ids \<longrightarrow>
      credentials (fetchIssuedCredentials c s a p) = List.map_filter (issued_item c) ids \<and>
      map cred_id (credentials (fetchIssuedCredentials c s a p)) =
        map (\<lambda>t. toNumber (unat t))
          (filter (\<lambda>t. \<not> isl (verifyCertificate c t) \<and> \<not> isl (ownerOf c t)) ids) \<and>
      fetch_error (fetchIssuedCredentials c s a p) = None) \<and>
   (address s = Some addr \<and> addr \<noteq> [] \<and> isCorrectNetwork s \<and> contract s \<noteq> None \<and>
    balanceOf c addr = Inr balance \<and> unat balance \<le> 2 ^ 53 \<longrightarrow>
      map_option credentials (fetchCredentials c s p) =
        Some (List.map_filter (owned_item c addr) [0..<unat balance]) \<and>
      map_option fetch_error (fetchCredentials c s p) = Some None)"
proof (intro conjI impI)
  assume h: "address s = Some addr \<and> addr \<noteq> [] \<and> isCorrectNetwork s \<and> contract s \<noteq> None \<and>
             map_option accountType (user a) = Some Institution \<and>
             getIssuedCertificates c addr = Inr ids"
  then have p: "address s = Some addr" "addr \<noteq> []" "isCorrectNetwork s" "contract s \<noteq> None"
    "map_option accountType (user a) = Some Institution" "getIssuedCertificates c addr = Inr ids"
    by blast+
  have c: "credentials (fetchIssuedCredentials c s a p) = List.map_filter (issued_item c) ids"
    using p by (rule fetchIssued_credentials(1))
  then show "credentials (fetchIssuedCredentials c s a p) = List.map_filter (issued_item c) ids" .
  show "map cred_id (credentials (fetchIssuedCredentials c s a p)) =
          map (\<lambda>t. toNumber (unat t))
            (filter (\<lambda>t. \<not> isl (verifyCertificate c t) \<and> \<not> isl (ownerOf c t)) ids)"
    unfolding c by (rule issued_ids)
  show "fetch_error (fetchIssuedCredentials c s a p) = None"
    using p by (rule fetchIssued_credentials(2))
next
  assume h: "address s = Some addr \<and> addr \<noteq> [] \<and> isCorrectNetwork s \<and> contract s \<noteq> None \<and>
             balanceOf c addr = Inr balance \<and> unat balance \<le> 2 ^ 53"
  then have p: "address s = Some addr" "addr \<noteq> []" "isCorrectNetwork s" "contract s \<noteq> None"
    "balanceOf c addr = Inr balance" "unat balance \<le> 2 ^ 53"
    by blast+
  show "map_option credentials (fetchCredentials c s p) =
          Some (List.map_filter (owned_item c addr) [0..<unat balance])"
    using p by (rule fetchCredentials_credentials(1))
next
  assume h: "address s = Some addr \<and> addr \<noteq> [] \<and> isCorrectNetwork s \<and> contract s \<noteq> None \<and>
             balanceOf c addr = Inr balance \<and> unat balance \<le> 2 ^ 53"
  then have p: "address s = Some addr" "addr \<noteq> []" "isCorrectNetwork s" "contract s \<noteq> None"
    "balanceOf c addr = Inr balance" "unat balance \<le> 2 ^ 53"
    by blast+
  show "map_option fetch_error (fetchCredentials c s p) = Some None"
    using p by (rule fetchCredentials_credentials(2))
qed

theorem batch_partial_failure_witness:
  "map cred_id (credentials (fetchIssuedCredentials sample_contract connected_session
                               institution_auth empty_page)) = [1, 3] \<and>
   map_option (map cred_id)
     (map_option credentials (fetchCredentials sample_contract connected_session empty_page)) =
     Some [1, 3]"
proof -
  let ?addr = "''0xABCDEF0123456789abcdef0123456789ABCD1234''"
  have g: "address connected_session = Some ?addr" "?addr \<noteq> []"
    "isCorrectNetwork connected_session" "contract connected_session \<noteq> None"
    by (simp_all add: connected_session_fields connected_session_network)
  have i: "map_option accountType (user institution_auth) = Some Institution"
    by (rule institution_auth_type)
  have l: "getIssuedCertificates sample_contract ?addr = Inr [1, 2, 3]"
    by (simp add: sample_contract_def)
  have b: "balanceOf sample_contract ?addr = Inr 3" "unat (3 :: uint256) \<le> 2 ^ 53"
    by (simp_all add: sample_contract_def)
  have issued:
    "map cred_id (credentials (fetchIssuedCredentials sample_contract connected_session
                                 institution_auth empty_page)) =
       map (\<lambda>t. toNumber (unat t))
         (filter (\<lambda>t. \<not> isl (verifyCertificate sample_contract t) \<and>
                      \<not> isl (ownerOf sample_contract t)) [1, 2, 3])"
    using g i l
      batch_partial_failure [of connected_session ?addr institution_auth sample_contract
                                "[1, 2, 3]" empty_page 3]
    by blast
  have owned:
    "map_option credentials (fetchCredentials sample_contract connected_session empty_page) =
       Some (List.map_filter (owned_item sample_contract ?addr) [0..<unat (3 :: uint256)])"
    using g b
      batch_partial_failure [of connected_session ?addr institution_auth sample_contract
                                "[1, 2, 3]" empty_page 3]
    by blast
  have e1: "map (\<lambda>t. toNumber (unat t))
              (filter (\<lambda>t. \<not> isl (verifyCertificate sample_contract t) \<and>
                           \<not> isl (ownerOf sample_contract t)) [1, 2, 3 :: uint256]) = [1, 3]"
    by (simp add: sample_contract_def toNumber_def)
  have e2: "map cred_id (List.map_filter (owned_item sample_contract ?addr)
                           [0..<unat (3 :: uint256)]) = [1, 3]"
  proof -
    have u: "[0..<3 :: nat] = [0, 1, 2]" by (simp add: upt_rec)
    show ?thesis
      by (simp add: u owned_item_def sample_contract_def toNumber_def)
  qed
  show ?thesis
    unfolding issued owned e1 option.map e2 by simp
qed

section \<open>Reasons of failed contract calls\<close>

text \<open>
  C7, as stated, fails for a failure object whose \<open>reason\<close> field is present and empty:
  the message shown is taken from the raw message, not from the reason.
\<close>

theorem reason_extraction_counterexample:
  "reason empty_reason_error = Some [] \<and>
   message empty_reason_error = Some ''execution reverted (action=call)'' \<and>
   issue_error_message empty_reason_error = ''execution reverted'' \<and>
   verify_error_message empty_reason_error = ''execution reverted''"
  by (simp add: empty_reason_error_def revert_error_def issue_error_message_def
        verify_error_message_def error_message_def truthy_def split_head_def js_trim_def
        is_space_def)

text \<open>
  C7 (amended). For every failure object, the message shown equals the \<open>reason\<close> field when
  it is present and not empty; otherwise, when \<open>message\<close> is present, not empty and made
  of ASCII characters, it equals the text of the message before the first opening
  parenthesis (all of it when there is none), trimmed of surrounding white space;
  otherwise, when \<open>message\<close> is absent or empty, it is the page's fixed default text. Both
  submit handlers compute it this way, each with its own default.
\<close>

theorem reason_extraction:
  "(\<forall>r. reason err = Some r \<and> r \<noteq> [] \<longrightarrow> error_message dflt err = r) \<and>
   (\<forall>m. (reason err = None \<or> reason err = Some []) \<and> message err = Some m \<and> m \<noteq> [] \<and>
        list_all is_ascii m \<longrightarrow>
        error_message dflt err = js_trim (takeWhile (\<lambda>ch. ch \<noteq> CHR ''('') m)) \<and>
   ((reason err = None \<or> reason err = Some []) \<and> (message err = None \<or> message err = Some []) \<longrightarrow>
        error_message dflt err = dflt) \<and>
   issue_error_message err =
     error_message ''There was an error issuing the credential. Please try again.'' err \<and>
   verify_error_message err =
     error_message ''The credential could not be verified. It may not exist or there was an error.'' err"
  by (auto simp: error_message_def truthy_def split_head_def issue_error_message_def
        verify_error_message_def split: option.splits)

theorem reason_extraction_witness:
  "issue_error_message revert_error = ''ERC721: invalid token ID'' \<and>
   verify_error_message (revert_error\<lparr>reason := None\<rparr>) = ''execution reverted'' \<and>
   verify_error_message bare_error =
     ''The credential could not be verified. It may not exist or there was an error.''"
  using reason_extraction
          [of revert_error "''There was an error issuing the credential. Please try again.''"]
        reason_extraction
          [of "revert_error\<lparr>reason := None\<rparr>"
              "''The credential could not be verified. It may not exist or there was an error.''"]
        reason_extraction
          [of bare_error
              "''The credential could not be verified. It may not exist or there was an error.''"]
  by (simp add: revert_error_def bare_error_def js_trim_def is_space_def is_ascii_def)


end
